theory Spec2Isabelle
  imports Main
begin

section \<open>JavaScript values and the cells of the spreadsheet\<close>

text \<open>
  The server (\<^verbatim>\<open>src/server.js\<close>) keeps no state of its own: every handler reads
  and writes three sheets of one spreadsheet through \<^verbatim>\<open>sheets.spreadsheets.values\<close>.
  The values that handlers put into rows are JavaScript values; the values that a read
  returns are the strings the sheet shows for its cells.

  A string is the list of the bytes of its UTF-8 encoding. The numbers of the program are
  the results of \<^verbatim>\<open>parseInt\<close> and of adding 1 to them: integers that a double holds, or
  an infinity (\<^verbatim>\<open>NaN\<close> never leaves \<^verbatim>\<open>getLastRowNumber\<close>). Nested objects and arrays
  inside a request body are not modelled (no handler looks inside one), and a number in a
  request body is one of these numbers.
\<close>

datatype jsnum = Fin int | PosInf | NegInf

datatype jsval = Undefined | Null | Num jsnum | Str string

type_synonym row = "string list"

type_synonym jsobject = "(string \<times> jsval) list"

text \<open>Property access \<^verbatim>\<open>obj.k\<close>: \<^verbatim>\<open>undefined\<close> when the object has no such key.\<close>

definition get_prop :: "jsobject \<Rightarrow> string \<Rightarrow> jsval" where
  "get_prop obj k = (case map_of obj k of None \<Rightarrow> Undefined | Some v \<Rightarrow> v)"

text \<open>Array access \<^verbatim>\<open>row[i]\<close> on a row that a read returned: a string, or
  \<^verbatim>\<open>undefined\<close> beyond the end of the row.\<close>

definition cell :: "row \<Rightarrow> nat \<Rightarrow> jsval" where
  "cell r i = (if i < length r then Str (r ! i) else Undefined)"

subsection \<open>Decimal numerals\<close>

definition digit_char :: "nat \<Rightarrow> char" where
  "digit_char d = ''0123456789'' ! d"

function dec_nat :: "nat \<Rightarrow> string" where
  "dec_nat n = (if n < 10 then [digit_char n] else dec_nat (n div 10) @ [digit_char (n mod 10)])"
  by pat_completeness auto
termination
  by (relation "measure id") auto

declare dec_nat.simps [simp del]

definition dec_int :: "int \<Rightarrow> string" where
  "dec_int i = (if i < 0 then CHR ''-'' # dec_nat (nat (- i)) else dec_nat (nat i))"

subsection \<open>Numbers are doubles\<close>

text \<open>
  The double nearest to a non-negative integer \<open>m\<close>, ties going to the even mantissa:
  \<open>m\<close> itself up to \<open>2^53\<close>, beyond that \<open>m\<close> rounded to 53 significant bits, and no
  finite double (\<open>None\<close>) once the rounded value needs more than 1024 bits.
\<close>

function bit_length :: "int \<Rightarrow> nat" where
  "bit_length n = (if n \<le> 0 then 0 else Suc (bit_length (n div 2)))"
  by pat_completeness auto
termination
  by (relation "measure nat") auto

declare bit_length.simps [simp del]

definition round_double :: "int \<Rightarrow> int option" where
  "round_double m =
     (if m \<le> 2 ^ 53 then Some m
      else (let k = bit_length m - 53;
                q = m div 2 ^ k;
                r = m mod 2 ^ k;
                half = 2 ^ (k - 1);
                q' = (if half < r \<or> (r = half \<and> odd q) then q + 1 else q);
                v = q' * 2 ^ k
            in if 1024 < bit_length v then None else Some v))"

text \<open>The number with the given sign and magnitude; \<open>-0\<close> and \<open>0\<close> are both \<open>Fin 0\<close>.\<close>

definition to_number :: "bool \<Rightarrow> int \<Rightarrow> jsnum" where
  "to_number neg m =
     (case round_double m of
        None \<Rightarrow> if neg then NegInf else PosInf
      | Some v \<Rightarrow> Fin (if neg then - v else v))"

text \<open>\<^verbatim>\<open>x + 1\<close>: the double nearest to the sum.\<close>

definition plus_one :: "jsnum \<Rightarrow> jsnum" where
  "plus_one x =
     (case x of
        Fin i \<Rightarrow> to_number (i + 1 < 0) \<bar>i + 1\<bar>
      | PosInf \<Rightarrow> PosInf
      | NegInf \<Rightarrow> NegInf)"

subsection \<open>\<^verbatim>\<open>parseInt(s, 10)\<close>\<close>

text \<open>
  \<^verbatim>\<open>parseInt\<close> skips leading white space, reads an optional sign and then the longest
  run of decimal digits; with no digit the result is \<^verbatim>\<open>NaN\<close>, here \<open>None\<close>, and else
  the double nearest to the integer that the digits denote.

  The white space of JavaScript, in UTF-8: tab, line feed, vertical tab, form feed,
  carriage return, space, U+00A0, U+1680, U+2000 to U+200A, U+2028, U+2029, U+202F, U+205F,
  U+3000 and U+FEFF.
\<close>

definition white_space :: "string list" where
  "white_space =
     [[CHR 0x09], [CHR 0x0A], [CHR 0x0B], [CHR 0x0C], [CHR 0x0D], [CHR 0x20],
      [CHR 0xC2, CHR 0xA0],
      [CHR 0xE1, CHR 0x9A, CHR 0x80],
      [CHR 0xE2, CHR 0x80, CHR 0x80], [CHR 0xE2, CHR 0x80, CHR 0x81],
      [CHR 0xE2, CHR 0x80, CHR 0x82], [CHR 0xE2, CHR 0x80, CHR 0x83],
      [CHR 0xE2, CHR 0x80, CHR 0x84], [CHR 0xE2, CHR 0x80, CHR 0x85],
      [CHR 0xE2, CHR 0x80, CHR 0x86], [CHR 0xE2, CHR 0x80, CHR 0x87],
      [CHR 0xE2, CHR 0x80, CHR 0x88], [CHR 0xE2, CHR 0x80, CHR 0x89],
      [CHR 0xE2, CHR 0x80, CHR 0x8A],
      [CHR 0xE2, CHR 0x80, CHR 0xA8], [CHR 0xE2, CHR 0x80, CHR 0xA9],
      [CHR 0xE2, CHR 0x80, CHR 0xAF],
      [CHR 0xE2, CHR 0x81, CHR 0x9F],
      [CHR 0xE3, CHR 0x80, CHR 0x80],
      [CHR 0xEF, CHR 0xBB, CHR 0xBF]]"

text \<open>The length of the white space character that a string starts with, \<open>0\<close> for none.\<close>

definition ws_prefix :: "string \<Rightarrow> nat" where
  "ws_prefix s =
     (case filter (\<lambda>p. take (length p) s = p) white_space of [] \<Rightarrow> 0 | p # _ \<Rightarrow> length p)"

function trim_start :: "string \<Rightarrow> string" where
  "trim_start s = (if ws_prefix s = 0 then s else trim_start (drop (ws_prefix s) s))"
  by pat_completeness auto
termination
proof (relation "measure length")
  show "wf (measure length)" by simp
next
  fix s :: string
  assume "ws_prefix s \<noteq> 0"
  moreover have "ws_prefix [] = 0"
    by (simp add: ws_prefix_def white_space_def)
  ultimately have "s \<noteq> []"
    by auto
  with \<open>ws_prefix s \<noteq> 0\<close> show "(drop (ws_prefix s) s, s) \<in> measure length"
    by simp
qed

declare trim_start.simps [simp del]

definition is_digit :: "char \<Rightarrow> bool" where
  "is_digit c = (48 \<le> (of_char c :: int) \<and> (of_char c :: int) \<le> 57)"

definition digit_val :: "char \<Rightarrow> int" where
  "digit_val c = of_char c - 48"

definition digits_val :: "string \<Rightarrow> int" where
  "digits_val ds = foldl (\<lambda>a c. 10 * a + digit_val c) 0 ds"

definition parseInt :: "string \<Rightarrow> jsnum option" where
  "parseInt s =
     (let S = trim_start s;
          neg = (case S of [] \<Rightarrow> False | c # _ \<Rightarrow> c = CHR ''-'');
          S' = (case S of [] \<Rightarrow> [] | c # cs \<Rightarrow> if c = CHR ''+'' \<or> c = CHR ''-'' then cs else S);
          Z = takeWhile is_digit S'
      in if Z = [] then None else Some (to_number neg (digits_val Z)))"

text \<open>\<^verbatim>\<open>parseInt(rowNumber, 10) || 1\<close>: \<^verbatim>\<open>NaN\<close>, \<open>0\<close> and \<open>-0\<close> are falsy.\<close>

definition parseInt_or_1 :: "string \<Rightarrow> jsnum" where
  "parseInt_or_1 s = (case parseInt s of None \<Rightarrow> Fin 1 | Some n \<Rightarrow> if n = Fin 0 then Fin 1 else n)"

section \<open>The spreadsheet backend\<close>

text \<open>
  Modelled from the spec: the spreadsheet service behind \<^verbatim>\<open>sheets.spreadsheets.values\<close>
  is an external collaborator. Section 4.1 of the specification (RangeStore) gives its
  contract: a read returns the ordered rows of a range (no rows when the range has no
  data) and fails when the backend cannot be reached; an append adds a row after the last
  row of the table; an overwrite replaces the contents of exactly the addressed cells.

  Each sheet is the list of its rows from row 2 on (row 1 holds the headings), a row being
  the list of the texts of its cells from column A on. A written number is stored as its
  decimal numeral, a written string as it is, \<^verbatim>\<open>undefined\<close> and \<^verbatim>\<open>null\<close> as the empty
  text, and so is an infinite number, which the JSON of the request writes as \<^verbatim>\<open>null\<close>;
  the re-interpretation that the input option \<^verbatim>\<open>USER_ENTERED\<close> applies to a typed text
  and the number format of the sheet are not modelled.

  Whether a call reaches the backend is decided by \<open>fails\<close>: the call number \<open>k\<close> of a
  run (counted from the start of the trace) throws iff \<open>fails w k\<close>. The trace records
  every call that was issued together with its outcome; it is how a theorem can say that
  no call was made or repeated.
\<close>

datatype sheet = MAIN_DATA | USER_LIST | LOG_ACTIVITY

datatype call = ValuesGet sheet nat | ValuesAppend sheet | ValuesUpdate sheet

record world =
  main_data :: "row list"
  user_list :: "row list"
  log_activity :: "row list"
  fails :: "nat \<Rightarrow> bool"
  trace :: "(call \<times> bool) list"

fun rows_of :: "sheet \<Rightarrow> world \<Rightarrow> row list" where
  "rows_of MAIN_DATA w = main_data w"
| "rows_of USER_LIST w = user_list w"
| "rows_of LOG_ACTIVITY w = log_activity w"

fun set_rows :: "sheet \<Rightarrow> row list \<Rightarrow> world \<Rightarrow> world" where
  "set_rows MAIN_DATA rs w = w\<lparr>main_data := rs\<rparr>"
| "set_rows USER_LIST rs w = w\<lparr>user_list := rs\<rparr>"
| "set_rows LOG_ACTIVITY rs w = w\<lparr>log_activity := rs\<rparr>"

definition render :: "jsval \<Rightarrow> string" where
  "render v =
     (case v of
        Undefined \<Rightarrow> []
      | Null \<Rightarrow> []
      | Num (Fin n) \<Rightarrow> dec_int n
      | Num _ \<Rightarrow> []
      | Str s \<Rightarrow> s)"

subsection \<open>Exceptions and the effect type\<close>

datatype exn = BackendError | ReferenceError string | Error string | VerifyError

type_synonym 'a io = "world \<Rightarrow> (exn + 'a) \<times> world"

definition return_io :: "'a \<Rightarrow> 'a io" where
  "return_io x w = (Inr x, w)"

definition throw_io :: "exn \<Rightarrow> 'a io" where
  "throw_io e w = (Inl e, w)"

definition bind_io :: "'a io \<Rightarrow> ('a \<Rightarrow> 'b io) \<Rightarrow> 'b io" where
  "bind_io m f w = (case m w of (Inl e, w') \<Rightarrow> (Inl e, w') | (Inr x, w') \<Rightarrow> f x w')"

text \<open>\<^verbatim>\<open>try { m } catch (error) { h }\<close>\<close>

definition catch_io :: "'a io \<Rightarrow> (exn \<Rightarrow> 'a io) \<Rightarrow> 'a io" where
  "catch_io m h w = (case m w of (Inl e, w') \<Rightarrow> h e w' | (Inr x, w') \<Rightarrow> (Inr x, w'))"

subsection \<open>The three calls\<close>

definition record_call :: "call \<Rightarrow> bool \<Rightarrow> world \<Rightarrow> world" where
  "record_call c ok w = w\<lparr>trace := trace w @ [(c, ok)]\<rparr>"

definition backend_call :: "call \<Rightarrow> unit io" where
  "backend_call c w =
     (let failed = fails w (length (trace w))
      in (if failed then Inl BackendError else Inr (), record_call c (\<not> failed) w))"

text \<open>\<^verbatim>\<open>values.get\<close> on the range from cell A2 to the end of column number \<open>n\<close>.\<close>

definition values_get :: "sheet \<Rightarrow> nat \<Rightarrow> (row list) io" where
  "values_get s n =
     bind_io (backend_call (ValuesGet s n)) (\<lambda>_ w. (Inr (map (take n) (rows_of s w)), w))"

text \<open>\<^verbatim>\<open>values.append\<close> of one row.\<close>

definition values_append :: "sheet \<Rightarrow> jsval list \<Rightarrow> unit io" where
  "values_append s r =
     bind_io (backend_call (ValuesAppend s))
       (\<lambda>_ w. (Inr (), set_rows s (rows_of s w @ [map render r]) w))"

text \<open>
  \<^verbatim>\<open>values.update\<close>: the cells of the sheet starting at row index \<open>i\<close> and column index
  \<open>j\<close> take the given values; cells to the left, to the right and in other rows keep
  their text. The sheet is a grid, so a write beyond the last row or the last cell of a
  row fills the gap with empty cells.
\<close>

definition overwrite_cells :: "row \<Rightarrow> nat \<Rightarrow> row \<Rightarrow> row" where
  "overwrite_cells old j new =
     take j (old @ replicate (j - length old) []) @ new @ drop (j + length new) old"

definition put_row :: "nat \<Rightarrow> nat \<Rightarrow> row \<Rightarrow> row list \<Rightarrow> row list" where
  "put_row i j r rows =
     (let rows' = rows @ replicate (Suc i - length rows) []
      in rows'[i := overwrite_cells (rows' ! i) j r])"

fun put_rows :: "nat \<Rightarrow> nat \<Rightarrow> row list \<Rightarrow> row list \<Rightarrow> row list" where
  "put_rows i j [] rows = rows"
| "put_rows i j (r # rs) rows = put_rows (Suc i) j rs (put_row i j r rows)"

definition values_update :: "sheet \<Rightarrow> nat \<Rightarrow> nat \<Rightarrow> jsval list list \<Rightarrow> unit io" where
  "values_update s i j vs =
     bind_io (backend_call (ValuesUpdate s))
       (\<lambda>_ w. (Inr (), set_rows s (put_rows i j (map (map render) vs) (rows_of s w)) w))"

section \<open>The server\<close>

subsection \<open>What a request brings with it\<close>

text \<open>
  \<open>now\<close> is the text that \<^verbatim>\<open>currentDateTime()\<close> returns while the request is served and
  \<open>stringify\<close> stands for \<^verbatim>\<open>JSON.stringify\<close> on the details of a log entry; no claim
  depends on either.
\<close>

record user =
  name :: string
  email :: string

datatype details =
    DetailsText string
  | DetailsData jsobject
  | DetailsUpdate string jsobject
  | DetailsId string

record env =
  now :: string
  stringify :: "details \<Rightarrow> string"

datatype body =
    ErrorBody string
  | MessageBody string
  | MessageDataBody string "jsval list"
  | DataBody "jsobject list"
  | TokenUserBody string string string

datatype response = Response (status: nat) (body: body)

text \<open>
  A handler is \<^verbatim>\<open>try { ...; res.json(..) } catch (error) { res.status(..).json(..) }\<close>:
  it always answers, with the response of its body or with the one of its catch block.
\<close>

definition try_respond :: "response io \<Rightarrow> (exn \<Rightarrow> response) \<Rightarrow> world \<Rightarrow> response \<times> world" where
  "try_respond m h w = (case m w of (Inl e, w') \<Rightarrow> (h e, w') | (Inr r, w') \<Rightarrow> (r, w'))"

text \<open>\<^verbatim>\<open>rows.findIndex(p)\<close>; \<open>None\<close> is the result \<open>-1\<close>.\<close>

fun findIndex :: "('a \<Rightarrow> bool) \<Rightarrow> 'a list \<Rightarrow> nat option" where
  "findIndex p [] = None"
| "findIndex p (x # xs) = (if p x then Some 0 else map_option Suc (findIndex p xs))"

subsection \<open>\<^verbatim>\<open>getLastRowNumber\<close> (lines 50-69)\<close>

text \<open>
  The body of the \<^verbatim>\<open>try\<close> block once the read has returned: \<open>0\<close> without rows, else the
  number parsed from the first cell of the last row. \<^verbatim>\<open>values[rows - 1]?.[0] || null\<close> is
  \<^verbatim>\<open>null\<close> when that cell is missing or empty, and \<^verbatim>\<open>parseInt(null, 10)\<close> parses the text
  \<^verbatim>\<open>"null"\<close>.
\<close>

definition last_row_number :: "row list \<Rightarrow> jsnum" where
  "last_row_number values =
     (if values = [] then Fin 0
      else (let rowNumber = (case cell (last values) 0 of
                               Str s \<Rightarrow> if s = [] then ''null'' else s
                             | _ \<Rightarrow> ''null'')
            in parseInt_or_1 rowNumber))"

definition getLastRowNumber :: "sheet \<Rightarrow> jsnum io" where
  "getLastRowNumber s =
     catch_io (bind_io (values_get s 1) (\<lambda>values. return_io (last_row_number values)))
       (\<lambda>error. return_io (Fin 0))"

subsection \<open>\<^verbatim>\<open>logActivity\<close> (lines 165-187)\<close>

definition logEntry :: "env \<Rightarrow> jsnum \<Rightarrow> user \<Rightarrow> string \<Rightarrow> details \<Rightarrow> jsval list" where
  "logEntry e newRowNumber u action d =
     [Num newRowNumber, Str (name u), Str (email u), Str action, Str (stringify e d),
      Str (now e)]"

definition logActivity :: "env \<Rightarrow> user \<Rightarrow> string \<Rightarrow> details \<Rightarrow> unit io" where
  "logActivity e u action d =
     catch_io
       (bind_io (getLastRowNumber LOG_ACTIVITY) (\<lambda>n.
          let newRowNumber = plus_one n
          in values_append LOG_ACTIVITY (logEntry e newRowNumber u action d)))
       (\<lambda>error. throw_io (Error ''Server Error!''))"

subsection \<open>\<^verbatim>\<open>GET /data\<close> (lines 191-217)\<close>

definition record_of_row :: "row \<Rightarrow> jsobject" where
  "record_of_row r =
     [(''id'', cell r 0), (''fullName'', cell r 1), (''populationId'', cell r 2),
      (''familyId'', cell r 3), (''gender'', cell r 4), (''dateOfBirth'', cell r 5),
      (''placeOfBirth'', cell r 6), (''religion'', cell r 7), (''bloodType'', cell r 8),
      (''lastUpdated'', cell r 9)]"

definition get_data :: "world \<Rightarrow> response \<times> world" where
  "get_data =
     try_respond
       (bind_io (values_get MAIN_DATA 11) (\<lambda>rows.
          return_io (Response 200 (DataBody (map record_of_row rows)))))
       (\<lambda>error. Response 500 (ErrorBody ''Failed to fetch data''))"

subsection \<open>\<^verbatim>\<open>POST /data/entry\<close> (lines 220-257)\<close>

definition newRow :: "env \<Rightarrow> jsnum \<Rightarrow> jsobject \<Rightarrow> jsval list" where
  "newRow e newRowNumber newData =
     [Num newRowNumber, get_prop newData ''fullName'', get_prop newData ''populationId'',
      get_prop newData ''familyId'', get_prop newData ''gender'',
      get_prop newData ''dateOfBirth'', get_prop newData ''placeOfBirth'',
      get_prop newData ''religion'', get_prop newData ''bloodType'', Str ''active'',
      Str (now e)]"

definition post_data_entry :: "env \<Rightarrow> user \<Rightarrow> jsobject \<Rightarrow> world \<Rightarrow> response \<times> world" where
  "post_data_entry e u newData =
     try_respond
       (bind_io (getLastRowNumber MAIN_DATA) (\<lambda>n.
          let newRowNumber = plus_one n
          in bind_io (values_append MAIN_DATA (newRow e newRowNumber newData)) (\<lambda>_.
             bind_io (logActivity e u ''CREATE'' (DetailsData newData)) (\<lambda>_.
             return_io (Response 201
               (MessageDataBody ''Entry created successfully''
                  (newRow e newRowNumber newData)))))))
       (\<lambda>error. Response 500 (ErrorBody ''Failed to create entry''))"

subsection \<open>\<^verbatim>\<open>PUT /dataupdate/:id\<close> (lines 260-312)\<close>

definition updatedRow :: "env \<Rightarrow> string \<Rightarrow> jsobject \<Rightarrow> jsval list" where
  "updatedRow e ident updatedData =
     [Str ident, get_prop updatedData ''fullName'', get_prop updatedData ''populationId'',
      get_prop updatedData ''familyId'', get_prop updatedData ''gender'',
      get_prop updatedData ''dateOfBirth'', get_prop updatedData ''placeOfBirth'',
      get_prop updatedData ''religion'', get_prop updatedData ''bloodType'', Str ''active'',
      Str (now e)]"

definition put_dataupdate ::
  "env \<Rightarrow> user \<Rightarrow> string \<Rightarrow> jsobject \<Rightarrow> world \<Rightarrow> response \<times> world" where
  "put_dataupdate e u ident updatedData =
     try_respond
       (bind_io (values_get MAIN_DATA 11) (\<lambda>rows.
          case findIndex (\<lambda>r. cell r 0 = Str ident) rows of
            None \<Rightarrow> return_io (Response 404 (ErrorBody ''Entry not found''))
          | Some rowIndex \<Rightarrow>
              bind_io (values_update MAIN_DATA rowIndex 0 [updatedRow e ident updatedData]) (\<lambda>_.
              bind_io (logActivity e u ''UPDATE'' (DetailsUpdate ident updatedData)) (\<lambda>_.
              return_io (Response 200 (MessageBody ''Entry updated successfully''))))))
       (\<lambda>error. Response 500 (ErrorBody ''Failed to update entry''))"

subsection \<open>\<^verbatim>\<open>PUT /data/:id\<close> (lines 315-348)\<close>

text \<open>
  The write addresses the single cell \<^verbatim>\<open>K(rowIndex + 2)\<close>, the eleventh column, and passes
  the bare text \<^verbatim>\<open>"tidak aktif"\<close> as \<^verbatim>\<open>values\<close>; the model takes the backend to store
  that text in the addressed cell.
\<close>

definition put_data :: "env \<Rightarrow> user \<Rightarrow> string \<Rightarrow> world \<Rightarrow> response \<times> world" where
  "put_data e u ident =
     try_respond
       (bind_io (values_get MAIN_DATA 11) (\<lambda>rows.
          case findIndex (\<lambda>r. cell r 0 = Str ident) rows of
            None \<Rightarrow> return_io (Response 404 (ErrorBody ''Entry not found''))
          | Some rowIndex \<Rightarrow>
              bind_io (values_update MAIN_DATA rowIndex 10 [[Str ''tidak aktif'']]) (\<lambda>_.
              bind_io (logActivity e u ''DELETE'' (DetailsId ident)) (\<lambda>_.
              return_io (Response 200 (MessageBody ''Entry deleted successfully''))))))
       (\<lambda>error. Response 500 (ErrorBody ''Failed to delete entry''))"

subsection \<open>\<^verbatim>\<open>POST /auth/google\<close> (lines 72-139)\<close>

text \<open>
  \<^verbatim>\<open>verifyIdToken\<close> (the identity provider's check, \<open>None\<close> when it throws) and
  \<^verbatim>\<open>sign\<close> (\<^verbatim>\<open>jwt.sign\<close> with the server's secret) are parameters.

  An assignment \<^verbatim>\<open>u[i] = v\<close> beyond the end of a JavaScript array extends the array,
  leaving holes that read as \<^verbatim>\<open>undefined\<close>.

  In the branch for an unknown email the array literal names \<^verbatim>\<open>credentials\<close>, an
  identifier that the file declares nowhere: evaluating it throws a
  \<^verbatim>\<open>ReferenceError\<close> before \<^verbatim>\<open>push\<close> is called.
\<close>

definition js_set :: "jsval list \<Rightarrow> nat \<Rightarrow> jsval \<Rightarrow> jsval list" where
  "js_set xs i v =
     (if i < length xs then xs[i := v] else xs @ replicate (i - length xs) Undefined @ [v])"

definition post_auth_google ::
  "env \<Rightarrow> (string \<Rightarrow> user option) \<Rightarrow> (user \<Rightarrow> string) \<Rightarrow> string \<Rightarrow> world \<Rightarrow> response \<times> world" where
  "post_auth_google e verifyIdToken sign token =
     try_respond
       (bind_io (case verifyIdToken token of None \<Rightarrow> throw_io VerifyError
                 | Some payload \<Rightarrow> return_io payload) (\<lambda>u.
        bind_io (values_get USER_LIST 7) (\<lambda>userSheet.
          let users = map (map Str) userSheet;
              userIndex = findIndex (\<lambda>r. cell r 2 = Str (email u)) userSheet;
              sessionToken = sign u
          in bind_io (case userIndex of
                        None \<Rightarrow> throw_io (ReferenceError ''credentials'')
                      | Some i \<Rightarrow>
                          return_io (users[i :=
                            js_set (js_set (js_set (js_set (users ! i)
                              1 (Str (name u))) 3 (Str token)) 4 (Str sessionToken))
                              5 (Str ''user'')])) (\<lambda>users'.
             bind_io (values_update USER_LIST 0 0 users') (\<lambda>_.
             bind_io (logActivity e u ''LOGIN'' (DetailsText ''User Login Attempt'')) (\<lambda>_.
             return_io (Response 200 (TokenUserBody sessionToken (name u) (email u)))))))))
       (\<lambda>error. Response 401 (ErrorBody ''Authentication failed''))"

subsection \<open>\<^verbatim>\<open>authenticate\<close> (lines 142-158)\<close>

text \<open>
  The middleware either writes a response, or calls \<^verbatim>\<open>next()\<close> with the decoded claims
  stored in \<^verbatim>\<open>req.user\<close>, so its result lists the responses it has written, in order,
  and the claims it has passed on, if any. \<^verbatim>\<open>jwt.verify\<close> with the server's secret is a
  parameter: \<open>None\<close> when it throws, else the decoded claims. \<open>date_now\<close> is
  \<^verbatim>\<open>Date.now()\<close>, in milliseconds.
\<close>

record claims =
  claims_user :: user
  exp :: "int option"

record auth_result =
  sent :: "response list"
  next_user :: "claims option"

fun split_on :: "char \<Rightarrow> string \<Rightarrow> string list" where
  "split_on c [] = [[]]"
| "split_on c (x # xs) =
     (if x = c then [] # split_on c xs
      else (case split_on c xs of [] \<Rightarrow> [[x]] | y # ys \<Rightarrow> (x # y) # ys))"

definition bearer_token :: "string option \<Rightarrow> string option" where
  "bearer_token authorization =
     (case authorization of
        None \<Rightarrow> None
      | Some h \<Rightarrow> (let parts = split_on CHR '' '' h
                  in if 1 < length parts then Some (parts ! 1) else None))"

text \<open>\<^verbatim>\<open>decoded.exp < currentTime\<close>; the comparison is false for a missing \<^verbatim>\<open>exp\<close>.\<close>

definition exp_before :: "claims \<Rightarrow> int \<Rightarrow> bool" where
  "exp_before decoded currentTime = (case exp decoded of None \<Rightarrow> False | Some t \<Rightarrow> t < currentTime)"

definition authenticate :: "(string \<Rightarrow> claims option) \<Rightarrow> int \<Rightarrow> string option \<Rightarrow> auth_result" where
  "authenticate jwt_verify date_now authorization =
     (case bearer_token authorization of
        None \<Rightarrow> \<lparr>sent = [Response 401 (ErrorBody ''Unauthorized'')], next_user = None\<rparr>
      | Some token \<Rightarrow>
          if token = [] then \<lparr>sent = [Response 401 (ErrorBody ''Unauthorized'')], next_user = None\<rparr>
          else (case jwt_verify token of
                  None \<Rightarrow> \<lparr>sent = [Response 401 (ErrorBody ''Token Expired'')], next_user = None\<rparr>
                | Some decoded \<Rightarrow>
                    (let currentTime = date_now div 1000
                     in \<lparr>sent = (if exp_before decoded currentTime
                                 then [Response 401 (ErrorBody ''Token Expired'')] else []),
                         next_user = Some decoded\<rparr>)))"

subsection \<open>A protected route\<close>

text \<open>
  \<^verbatim>\<open>app.post(path, authenticate, handler)\<close>: the handler runs iff the middleware calls
  \<^verbatim>\<open>next()\<close>, with \<^verbatim>\<open>req.user\<close> as the middleware has set it. The result lists the
  responses that middleware and handler write, in that order (the client is sent the
  first), and the backend as the request leaves it.
\<close>

definition protected ::
  "(string \<Rightarrow> claims option) \<Rightarrow> int \<Rightarrow> string option \<Rightarrow> (user \<Rightarrow> world \<Rightarrow> response \<times> world)
     \<Rightarrow> world \<Rightarrow> response list \<times> world" where
  "protected jwt_verify date_now authorization handler w =
     (let a = authenticate jwt_verify date_now authorization
      in case next_user a of
           None \<Rightarrow> (sent a, w)
         | Some decoded \<Rightarrow>
             (case handler (claims_user decoded) w of (r, w') \<Rightarrow> (sent a @ [r], w')))"

subsection \<open>The routes\<close>

text \<open>
  The routing table of the application (\<^verbatim>\<open>app.get\<close>, \<^verbatim>\<open>app.post\<close>, \<^verbatim>\<open>app.put\<close>). A
  request to a protected route carries the \<^verbatim>\<open>req.user\<close> that the middleware has set.
\<close>

datatype request =
    GetData
  | PostDataEntry user jsobject
  | PutDataUpdate user string jsobject
  | PutData user string
  | PostAuthGoogle string

definition serve ::
  "env \<Rightarrow> (string \<Rightarrow> user option) \<Rightarrow> (user \<Rightarrow> string) \<Rightarrow> request \<Rightarrow> world \<Rightarrow> response \<times> world" where
  "serve e verifyIdToken sign req =
     (case req of
        GetData \<Rightarrow> get_data
      | PostDataEntry u newData \<Rightarrow> post_data_entry e u newData
      | PutDataUpdate u ident updatedData \<Rightarrow> put_dataupdate e u ident updatedData
      | PutData u ident \<Rightarrow> put_data e u ident
      | PostAuthGoogle token \<Rightarrow> post_auth_google e verifyIdToken sign token)"


text \<open>
  The reference-column reads are the reads of column A alone, \<^verbatim>\<open>MAIN_DATA!A2:A\<close> and
  \<^verbatim>\<open>LOG_ACTIVITY!A2:A\<close>; only \<^verbatim>\<open>getLastRowNumber\<close> issues them.
\<close>

definition is_ref_read :: "call \<Rightarrow> bool" where
  "is_ref_read c = (case c of ValuesGet s n \<Rightarrow> n = 1 | _ \<Rightarrow> False)"

text \<open>The calls that a request has issued: what it has added to the trace.\<close>

definition new_calls :: "world \<Rightarrow> world \<Rightarrow> (call \<times> bool) list" where
  "new_calls w w' = drop (length (trace w)) (trace w')"

text \<open>
  What the handling of a request from the backend \<open>w\<close> with result \<open>rw\<close> must satisfy
  for backend failures to surface at once: the trace only grows, no call is issued twice,
  and a failed call other than a reference-column read is the last call of the request,
  which then answers with the given failure status.
\<close>

definition calls_stop :: "nat \<Rightarrow> world \<Rightarrow> response \<times> world \<Rightarrow> bool" where
  "calls_stop failure w rw \<longleftrightarrow>
     trace (snd rw) = trace w @ new_calls w (snd rw)
   \<and> distinct (map fst (new_calls w (snd rw)))
   \<and> (\<forall>x \<in> set (new_calls w (snd rw)).
         \<not> snd x \<and> \<not> is_ref_read (fst x) \<longrightarrow>
           x = last (new_calls w (snd rw)) \<and> status (fst rw) = failure)"

section \<open>Example inputs\<close>

definition example_env :: env where
  "example_env = \<lparr>now = ''11/3/2026, 10:00:00 AM'', stringify = (\<lambda>_. ''{}'')\<rparr>"

definition example_user :: user where
  "example_user = \<lparr>name = ''Ani'', email = ''ani@example.org''\<rparr>"

definition example_row :: row where
  "example_row = [''1'', ''Budi'', ''P1'', ''F1'', ''M'', ''2000-01-01'', ''Bandung'', ''Islam'',
                  ''O'', ''active'', ''11/2/2026, 9:00:00 AM'']"

definition example_payload :: jsobject where
  "example_payload = [(''id'', Str ''99''), (''fullName'', Str ''Budi S''),
                      (''populationId'', Str ''P1''), (''familyId'', Str ''F1''),
                      (''gender'', Str ''M''), (''dateOfBirth'', Str ''2000-01-01''),
                      (''placeOfBirth'', Str ''Bandung''), (''religion'', Str ''Islam''),
                      (''bloodType'', Str ''O'')]"

definition empty_world :: world where
  "empty_world = \<lparr>main_data = [], user_list = [], log_activity = [],
                   fails = (\<lambda>_. False), trace = []\<rparr>"

definition world_one_record :: world where
  "world_one_record = empty_world\<lparr>main_data := [example_row]\<rparr>"

definition example_claims :: claims where
  "example_claims = \<lparr>claims_user = example_user, exp = Some 1000\<rparr>"

text \<open>One record is created on the empty backend, then soft-deleted, then updated.\<close>

definition world_after_create :: world where
  "world_after_create = snd (post_data_entry example_env example_user example_payload empty_world)"

definition world_after_delete :: world where
  "world_after_delete = snd (put_data example_env example_user ''1'' world_after_create)"

definition world_after_update :: world where
  "world_after_update =
     snd (put_dataupdate example_env example_user ''1'' example_payload world_after_delete)"

text \<open>
  A second record is created while the reference-column read fails; afterwards the
  backend answers again.
\<close>

definition world_read_fails :: world where
  "world_read_fails = world_after_create\<lparr>fails := (\<lambda>k. k = length (trace world_after_create))\<rparr>"




text \<open>One record is stored and the lookup read of the next request fails.\<close>

definition world_lookup_fails :: world where
  "world_lookup_fails = world_one_record\<lparr>fails := (\<lambda>k. k = 0)\<rparr>"


text \<open>After the first create, the append of the next one fails.\<close>

definition world_append_fails :: world where
  "world_append_fails =
     world_after_create\<lparr>fails := (\<lambda>k. k = length (trace world_after_create) + 1)\<rparr>"

section \<open>Basic facts\<close>

lemma rows_of_record_call [simp]: "rows_of s (record_call c ok w) = rows_of s w"
  by (cases s) (simp_all add: record_call_def)

lemma fails_record_call [simp]: "fails (record_call c ok w) = fails w"
  by (simp add: record_call_def)

lemma trace_record_call [simp]: "trace (record_call c ok w) = trace w @ [(c, ok)]"
  by (simp add: record_call_def)

lemma sheets_record_call [simp]:
  "main_data (record_call c ok w) = main_data w"
  "user_list (record_call c ok w) = user_list w"
  "log_activity (record_call c ok w) = log_activity w"
  by (simp_all add: record_call_def)

lemma set_rows_simps [simp]:
  "fails (set_rows s rs w) = fails w"
  "trace (set_rows s rs w) = trace w"
  "rows_of s (set_rows s rs w) = rs"
  by (cases s; simp)+

text \<open>What each backend call does, by the outcome that \<open>fails\<close> gives it.\<close>

lemma values_get_eq:
  "values_get s n w =
     (if fails w (length (trace w)) then (Inl BackendError, record_call (ValuesGet s n) False w)
      else (Inr (map (take n) (rows_of s w)), record_call (ValuesGet s n) True w))"
  by (simp add: values_get_def bind_io_def backend_call_def)

lemma values_append_eq:
  "values_append s r w =
     (if fails w (length (trace w)) then (Inl BackendError, record_call (ValuesAppend s) False w)
      else (Inr (), set_rows s (rows_of s w @ [map render r]) (record_call (ValuesAppend s) True w)))"
  by (simp add: values_append_def bind_io_def backend_call_def)

lemma values_update_eq:
  "values_update s i j vs w =
     (if fails w (length (trace w)) then (Inl BackendError, record_call (ValuesUpdate s) False w)
      else (Inr (), set_rows s (put_rows i j (map (map render) vs) (rows_of s w))
                      (record_call (ValuesUpdate s) True w)))"
  by (simp add: values_update_def bind_io_def backend_call_def)

text \<open>\<^verbatim>\<open>getLastRowNumber\<close> never throws: a failed read gives \<open>0\<close>.\<close>

lemma getLastRowNumber_eq:
  "getLastRowNumber s w =
     (Inr (if fails w (length (trace w)) then Fin 0
           else last_row_number (map (take 1) (rows_of s w))),
      record_call (ValuesGet s 1) (\<not> fails w (length (trace w))) w)"
  by (simp add: getLastRowNumber_def catch_io_def bind_io_def return_io_def values_get_eq)

lemma logActivity_eq:
  "logActivity e u a d w =
     (let w1 = record_call (ValuesGet LOG_ACTIVITY 1) (\<not> fails w (length (trace w))) w;
          n = (if fails w (length (trace w)) then Fin 0
               else last_row_number (map (take 1) (log_activity w)))
      in if fails w (Suc (length (trace w)))
         then (Inl (Error ''Server Error!''), record_call (ValuesAppend LOG_ACTIVITY) False w1)
         else (Inr (), set_rows LOG_ACTIVITY
                         (log_activity w @ [map render (logEntry e (plus_one n) u a d)])
                         (record_call (ValuesAppend LOG_ACTIVITY) True w1)))"
  by (simp add: logActivity_def catch_io_def bind_io_def throw_io_def getLastRowNumber_eq
      values_append_eq Let_def)

lemma findIndex_None: "findIndex p xs = None \<longleftrightarrow> (\<forall>x \<in> set xs. \<not> p x)"
  by (induction xs) auto

lemma findIndex_Some: "findIndex p xs = Some i \<Longrightarrow> i < length xs \<and> p (xs ! i)"
  by (induction xs arbitrary: i) (auto split: if_splits)

lemma cell_take: "0 < n \<Longrightarrow> cell (take n r) 0 = cell r 0"
  by (cases r) (simp_all add: cell_def)

lemma cell_take_less: "i < n \<Longrightarrow> cell (take n r) i = cell r i"
  by (simp add: cell_def)

lemma put_rows_single:
  "i < length rows \<Longrightarrow> put_rows i 0 [r] rows = rows[i := r @ drop (length r) (rows ! i)]"
  by (simp add: put_row_def overwrite_cells_def)

lemma id_column_update:
  assumes "i < length rows" and "cell r' 0 = cell (rows ! i) 0"
  shows "map (\<lambda>r. cell r 0) (rows[i := r']) = map (\<lambda>r. cell r 0) rows"
proof -
  have "map (\<lambda>r. cell r 0) (rows[i := r']) = (map (\<lambda>r. cell r 0) rows)[i := cell r' 0]"
    by (simp add: map_update)
  also have "\<dots> = (map (\<lambda>r. cell r 0) rows)[i := map (\<lambda>r. cell r 0) rows ! i]"
    using assms by simp
  also have "\<dots> = map (\<lambda>r. cell r 0) rows"
    by (rule list_update_id)
  finally show ?thesis .
qed

subsection \<open>What \<^verbatim>\<open>parseInt\<close> reads\<close>
















lemma to_number_exact: "0 \<le> m \<Longrightarrow> m \<le> 2 ^ 53 \<Longrightarrow> to_number neg m = Fin (if neg then - m else m)"
  by (simp add: to_number_def round_double_def)

lemma plus_one_exact: "\<bar>i + 1\<bar> \<le> 2 ^ 53 \<Longrightarrow> plus_one (Fin i) = Fin (i + 1)"
  by (auto simp add: plus_one_def to_number_exact)



text \<open>Beyond \<open>2^53\<close> a number is the nearest double, and adding 1 may leave it as it is.\<close>

lemma round_double_examples:
  "round_double 9007199254740993 = Some 9007199254740992"
  "round_double 9007199254740995 = Some 9007199254740996"
  "round_double (10 ^ 23) = Some 99999999999999991611392"
  "parseInt ''9007199254740993'' = Some (Fin 9007199254740992)"
  "plus_one (Fin 9007199254740992) = Fin 9007199254740992"
  by code_simp+





section \<open>Unknown ids\<close>

text \<open>
  Claim C6, as amended. When the id of the request equals the id cell of no row (compared
  as strings), \<^verbatim>\<open>PUT /dataupdate/:id\<close> and \<^verbatim>\<open>PUT /data/:id\<close> answer 404 if the lookup
  read of the table succeeds and 500 if that read fails; either way the records table and
  the activity log keep their rows, and the lookup read is the only backend call of the
  request, so no log entry is appended.
\<close>

theorem unknown_id_not_found:
  assumes "\<forall>r \<in> set (main_data w). cell r 0 \<noteq> Str ident"
  shows "status (fst (put_dataupdate e u ident updatedData w)) =
           (if fails w (length (trace w)) then 500 else 404)
       \<and> main_data (snd (put_dataupdate e u ident updatedData w)) = main_data w
       \<and> log_activity (snd (put_dataupdate e u ident updatedData w)) = log_activity w
       \<and> trace (snd (put_dataupdate e u ident updatedData w)) =
           trace w @ [(ValuesGet MAIN_DATA 11, \<not> fails w (length (trace w)))]
       \<and> status (fst (put_data e u ident w)) = (if fails w (length (trace w)) then 500 else 404)
       \<and> main_data (snd (put_data e u ident w)) = main_data w
       \<and> log_activity (snd (put_data e u ident w)) = log_activity w
       \<and> trace (snd (put_data e u ident w)) =
           trace w @ [(ValuesGet MAIN_DATA 11, \<not> fails w (length (trace w)))]"
proof -
  have "findIndex (\<lambda>r. cell r 0 = Str ident) (map (take 11) (main_data w)) = None"
    using assms by (simp add: findIndex_None cell_take)
  then show ?thesis
    by (simp add: put_dataupdate_def put_data_def try_respond_def bind_io_def return_io_def
        values_get_eq)
qed

theorem unknown_id_not_found_witness:
  "map (\<lambda>r. cell r 0) (main_data world_one_record) = [Str ''1'']
   \<and> status (fst (put_dataupdate example_env example_user ''2'' example_payload world_one_record)) = 404
   \<and> status (fst (put_data example_env example_user ''2'' world_one_record)) = 404
   \<and> main_data (snd (put_data example_env example_user ''2'' world_one_record)) = [example_row]
   \<and> log_activity (snd (put_data example_env example_user ''2'' world_one_record)) = []
   \<and> status (fst (put_dataupdate example_env example_user ''2'' example_payload
                     world_lookup_fails)) = 500
   \<and> status (fst (put_data example_env example_user ''2'' world_lookup_fails)) = 500
   \<and> main_data (snd (put_data example_env example_user ''2'' world_lookup_fails)) = [example_row]
   \<and> log_activity (snd (put_data example_env example_user ''2'' world_lookup_fails)) = []"
proof -
  have h: "\<forall>r \<in> set (main_data world_one_record). cell r 0 \<noteq> Str ''2''"
    by (simp add: world_one_record_def empty_world_def example_row_def cell_def)
  then have h': "\<forall>r \<in> set (main_data world_lookup_fails). cell r 0 \<noteq> Str ''2''"
    by (simp add: world_lookup_fails_def)
  from unknown_id_not_found [OF h, of example_env example_user example_payload]
    unknown_id_not_found [OF h', of example_env example_user example_payload]
  show ?thesis
    by (simp add: world_lookup_fails_def world_one_record_def empty_world_def example_row_def
        cell_def)
qed

text \<open>
  The claim as stated fails when the lookup read fails: the id 2 is in no row of the
  table, and both handlers answer 500, not 404.
\<close>

theorem unknown_id_with_failed_lookup_answers_500:
  "map (\<lambda>r. cell r 0) (main_data world_lookup_fails) = [Str ''1'']
   \<and> fails world_lookup_fails (length (trace world_lookup_fails))
   \<and> fst (put_dataupdate example_env example_user ''2'' example_payload world_lookup_fails) =
       Response 500 (ErrorBody ''Failed to update entry'')
   \<and> fst (put_data example_env example_user ''2'' world_lookup_fails) =
       Response 500 (ErrorBody ''Failed to delete entry'')"
  by code_simp

section \<open>Updates keep the id\<close>

lemma put_dataupdate_200:
  assumes "status (fst (put_dataupdate e u ident updatedData w)) = 200"
  shows "\<exists>rowIndex. findIndex (\<lambda>r. cell r 0 = Str ident) (map (take 11) (main_data w)) = Some rowIndex
           \<and> main_data (snd (put_dataupdate e u ident updatedData w)) =
               put_rows rowIndex 0 [map render (updatedRow e ident updatedData)] (main_data w)"
  using assms
  by (auto simp add: put_dataupdate_def try_respond_def bind_io_def return_io_def values_get_eq
      values_update_eq logActivity_eq Let_def split: if_splits option.splits)

text \<open>
  Claim C10. When \<^verbatim>\<open>PUT /dataupdate/:id\<close> answers 200, the row it has written replaces the
  row that the lookup found, and the first cell of the written row is the id of the
  path, whatever the payload holds (the payload's own \<^verbatim>\<open>id\<close> property is never read). So
  the id column of the table is the same before and after.
\<close>

theorem update_writes_path_id:
  assumes "status (fst (put_dataupdate e u ident updatedData w)) = 200"
  shows "\<exists>rowIndex < length (main_data w).
           findIndex (\<lambda>r. cell r 0 = Str ident) (map (take 11) (main_data w)) = Some rowIndex
         \<and> hd (updatedRow e ident updatedData) = Str ident
         \<and> main_data (snd (put_dataupdate e u ident updatedData w)) =
             (main_data w)[rowIndex := map render (updatedRow e ident updatedData)
                                       @ drop 11 (main_data w ! rowIndex)]
         \<and> cell (main_data (snd (put_dataupdate e u ident updatedData w)) ! rowIndex) 0 = Str ident
         \<and> map (\<lambda>r. cell r 0) (main_data (snd (put_dataupdate e u ident updatedData w))) =
             map (\<lambda>r. cell r 0) (main_data w)"
proof -
  let ?w' = "snd (put_dataupdate e u ident updatedData w)"
  let ?new = "map render (updatedRow e ident updatedData)"
  from put_dataupdate_200 [OF assms] obtain i where
    found: "findIndex (\<lambda>r. cell r 0 = Str ident) (map (take 11) (main_data w)) = Some i" and
    written: "main_data ?w' = put_rows i 0 [?new] (main_data w)"
    by blast
  from findIndex_Some [OF found] have i: "i < length (main_data w)"
    by simp
  from findIndex_Some [OF found] i have old: "cell (main_data w ! i) 0 = Str ident"
    by (simp add: cell_take)
  have len: "length ?new = 11" and first: "cell (?new @ drop 11 (main_data w ! i)) 0 = Str ident"
    by (simp_all add: updatedRow_def render_def cell_def)
  have eq: "main_data ?w' = (main_data w)[i := ?new @ drop 11 (main_data w ! i)]"
    using put_rows_single [OF i, of ?new] written len by simp
  have "cell (main_data ?w' ! i) 0 = Str ident"
    using eq i first by simp
  moreover have "map (\<lambda>r. cell r 0) (main_data ?w') = map (\<lambda>r. cell r 0) (main_data w)"
    unfolding eq using i first old by (intro id_column_update) simp_all
  moreover have "hd (updatedRow e ident updatedData) = Str ident"
    by (simp add: updatedRow_def)
  ultimately show ?thesis
    using i found eq by blast
qed

theorem update_writes_path_id_witness:
  "status (fst (put_dataupdate example_env example_user ''1'' example_payload world_one_record)) = 200
   \<and> get_prop example_payload ''id'' = Str ''99''
   \<and> map (\<lambda>r. cell r 0)
         (main_data (snd (put_dataupdate example_env example_user ''1'' example_payload
                            world_one_record))) = [Str ''1'']"
proof -
  have h: "status (fst (put_dataupdate example_env example_user ''1'' example_payload
                          world_one_record)) = 200"
    by code_simp
  from update_writes_path_id [OF h]
  have "map (\<lambda>r. cell r 0)
          (main_data (snd (put_dataupdate example_env example_user ''1'' example_payload
                             world_one_record))) = map (\<lambda>r. cell r 0) (main_data world_one_record)"
    by blast
  then show ?thesis
    using h
    by (simp add: world_one_record_def empty_world_def example_row_def cell_def get_prop_def
        example_payload_def)
qed

section \<open>The id of a new record\<close>


lemma plus_one_small: "plus_one (Fin 0) = Fin 1" "plus_one (Fin 1) = Fin 2"
  by (simp_all add: plus_one_exact)






section \<open>The activity log\<close>

lemma log_on_success:
  assumes "req \<noteq> GetData" and "status (fst (serve e v js req w)) \<in> {200, 201}"
  shows "\<exists>u a d. log_activity (snd (serve e v js req w)) =
           log_activity w @ [map render
             (logEntry e (plus_one (if fails w (length (trace w) + 2) then Fin 0
                                    else last_row_number (map (take 1) (log_activity w)))) u a d)]"
proof (cases req)
  case GetData
  with assms(1) show ?thesis by simp
next
  case (PostDataEntry u newData)
  with assms(2) show ?thesis
    by (auto simp add: serve_def post_data_entry_def try_respond_def bind_io_def return_io_def
        getLastRowNumber_eq values_append_eq logActivity_eq Let_def split: if_splits)
next
  case (PutDataUpdate u ident updatedData)
  with assms(2) show ?thesis
    by (auto simp add: serve_def put_dataupdate_def try_respond_def bind_io_def return_io_def
        values_get_eq values_update_eq logActivity_eq Let_def split: if_splits option.splits)
next
  case (PutData u ident)
  with assms(2) show ?thesis
    by (auto simp add: serve_def put_data_def try_respond_def bind_io_def return_io_def
        values_get_eq values_update_eq logActivity_eq Let_def split: if_splits option.splits)
next
  case (PostAuthGoogle token)
  with assms(2) show ?thesis
    by (auto simp add: serve_def post_auth_google_def try_respond_def bind_io_def return_io_def
        throw_io_def values_get_eq values_update_eq logActivity_eq Let_def
        split: if_splits option.splits)
qed




section \<open>Backend failures\<close>

lemma get_data_stops: "calls_stop 500 w (get_data w)"
  by (simp add: calls_stop_def new_calls_def get_data_def try_respond_def bind_io_def return_io_def
      values_get_eq)

lemma post_data_entry_stops: "calls_stop 500 w (post_data_entry e u newData w)"
  by (simp add: calls_stop_def new_calls_def post_data_entry_def try_respond_def bind_io_def
      return_io_def getLastRowNumber_eq values_append_eq logActivity_eq Let_def is_ref_read_def)

lemma put_dataupdate_stops: "calls_stop 500 w (put_dataupdate e u ident updatedData w)"
  by (simp add: calls_stop_def new_calls_def put_dataupdate_def try_respond_def bind_io_def
      return_io_def values_get_eq values_update_eq logActivity_eq Let_def is_ref_read_def
      split: option.splits)

lemma put_data_stops: "calls_stop 500 w (put_data e u ident w)"
  by (simp add: calls_stop_def new_calls_def put_data_def try_respond_def bind_io_def
      return_io_def values_get_eq values_update_eq logActivity_eq Let_def is_ref_read_def
      split: option.splits)

lemma post_auth_google_stops: "calls_stop 401 w (post_auth_google e v js token w)"
  by (simp add: calls_stop_def new_calls_def post_auth_google_def try_respond_def bind_io_def
      return_io_def throw_io_def values_get_eq values_update_eq logActivity_eq Let_def
      is_ref_read_def split: option.splits)

lemma serve_stops:
  "calls_stop (case req of PostAuthGoogle _ \<Rightarrow> 401 | _ \<Rightarrow> 500) w (serve e v js req w)"
  by (cases req)
    (simp_all add: serve_def get_data_stops post_data_entry_stops put_dataupdate_stops
      put_data_stops post_auth_google_stops)

lemma create_goes_on_with_zero:
  assumes "fails w (length (trace w))"
  shows "take 2 (new_calls w (snd (post_data_entry e u d w))) =
           [(ValuesGet MAIN_DATA 1, False),
            (ValuesAppend MAIN_DATA, \<not> fails w (Suc (length (trace w))))]"
    and "\<not> fails w (Suc (length (trace w))) \<longrightarrow>
           main_data (snd (post_data_entry e u d w)) =
             main_data w @ [map render (newRow e (Fin 1) d)]"
    and "\<not> fails w (Suc (length (trace w))) \<and> \<not> fails w (length (trace w) + 3) \<longrightarrow>
           fst (post_data_entry e u d w) =
             Response 201 (MessageDataBody ''Entry created successfully'' (newRow e (Fin 1) d))"
  using assms
  by (simp_all add: new_calls_def post_data_entry_def try_respond_def bind_io_def return_io_def
      getLastRowNumber_eq values_append_eq logActivity_eq Let_def plus_one_small
      eval_nat_numeral)

text \<open>
  Claim C8, as amended. For every request, the calls it issues extend the trace, no call is
  issued twice, and a failed backend call other than a reference-column read is the last
  call of the request, which answers 500, or 401 if it is the login. A failed
  reference-column read is different: \<^verbatim>\<open>getLastRowNumber\<close> catches it, issues no second
  read and returns 0, and the operation goes on with that number. A create whose
  reference-column read has failed issues its append next, the appended row has id 1, and
  the create answers 201 if its append and the append of its log entry succeed; and every
  request that answers 200 or 201 although the read of the log's reference column has
  failed has appended a log entry with sequence number 1.
\<close>

theorem backend_failure_surfaces_except_reference_read:
  "trace (snd (serve e v js req w)) = trace w @ new_calls w (snd (serve e v js req w))
   \<and> distinct (map fst (new_calls w (snd (serve e v js req w))))
   \<and> (\<forall>x \<in> set (new_calls w (snd (serve e v js req w))).
         \<not> snd x \<and> \<not> is_ref_read (fst x) \<longrightarrow>
           x = last (new_calls w (snd (serve e v js req w)))
           \<and> status (fst (serve e v js req w)) = (case req of PostAuthGoogle _ \<Rightarrow> 401 | _ \<Rightarrow> 500))
   \<and> fst (getLastRowNumber s w) =
       Inr (if fails w (length (trace w)) then Fin 0
            else last_row_number (map (take 1) (rows_of s w)))
   \<and> new_calls w (snd (getLastRowNumber s w)) = [(ValuesGet s 1, \<not> fails w (length (trace w)))]
   \<and> (\<forall>u d. req = PostDataEntry u d \<and> fails w (length (trace w)) \<longrightarrow>
         take 2 (new_calls w (snd (serve e v js req w))) =
           [(ValuesGet MAIN_DATA 1, False),
            (ValuesAppend MAIN_DATA, \<not> fails w (Suc (length (trace w))))]
         \<and> (\<not> fails w (Suc (length (trace w))) \<longrightarrow>
              main_data (snd (serve e v js req w)) =
                main_data w @ [map render (newRow e (Fin 1) d)])
         \<and> (\<not> fails w (Suc (length (trace w))) \<and> \<not> fails w (length (trace w) + 3) \<longrightarrow>
              fst (serve e v js req w) =
                Response 201 (MessageDataBody ''Entry created successfully''
                                (newRow e (Fin 1) d))))
   \<and> (req \<noteq> GetData \<and> status (fst (serve e v js req w)) \<in> {200, 201}
        \<and> fails w (length (trace w) + 2) \<longrightarrow>
        (\<exists>u a d. log_activity (snd (serve e v js req w)) =
           log_activity w @ [map render (logEntry e (Fin 1) u a d)]))"
proof -
  have "\<forall>u d. req = PostDataEntry u d \<and> fails w (length (trace w)) \<longrightarrow>
         take 2 (new_calls w (snd (serve e v js req w))) =
           [(ValuesGet MAIN_DATA 1, False),
            (ValuesAppend MAIN_DATA, \<not> fails w (Suc (length (trace w))))]
         \<and> (\<not> fails w (Suc (length (trace w))) \<longrightarrow>
              main_data (snd (serve e v js req w)) =
                main_data w @ [map render (newRow e (Fin 1) d)])
         \<and> (\<not> fails w (Suc (length (trace w))) \<and> \<not> fails w (length (trace w) + 3) \<longrightarrow>
              fst (serve e v js req w) =
                Response 201 (MessageDataBody ''Entry created successfully''
                                (newRow e (Fin 1) d)))"
    using create_goes_on_with_zero [of w e _ _]
    by (auto simp add: serve_def)
  moreover have "req \<noteq> GetData \<and> status (fst (serve e v js req w)) \<in> {200, 201}
        \<and> fails w (length (trace w) + 2) \<longrightarrow>
        (\<exists>u a d. log_activity (snd (serve e v js req w)) =
           log_activity w @ [map render (logEntry e (Fin 1) u a d)])"
  proof (intro impI, elim conjE)
    assume a: "req \<noteq> GetData" "status (fst (serve e v js req w)) \<in> {200, 201}"
      "fails w (length (trace w) + 2)"
    from log_on_success [OF a(1,2)] a(3) show
      "\<exists>u a d. log_activity (snd (serve e v js req w)) =
         log_activity w @ [map render (logEntry e (Fin 1) u a d)]"
      by (simp add: plus_one_small)
  qed
  ultimately show ?thesis
    using serve_stops [of req w e v js]
    by (simp add: calls_stop_def getLastRowNumber_eq new_calls_def)
qed

theorem backend_failure_surfaces_except_reference_read_witness:
  "new_calls world_append_fails
     (snd (serve example_env (\<lambda>_. None) (\<lambda>_. ''session'')
             (PostDataEntry example_user example_payload) world_append_fails)) =
     [(ValuesGet MAIN_DATA 1, True), (ValuesAppend MAIN_DATA, False)]
   \<and> status (fst (serve example_env (\<lambda>_. None) (\<lambda>_. ''session'')
                     (PostDataEntry example_user example_payload) world_append_fails)) = 500
   \<and> fst (serve example_env (\<lambda>_. None) (\<lambda>_. ''session'')
            (PostDataEntry example_user example_payload) world_read_fails) =
       Response 201 (MessageDataBody ''Entry created successfully''
                       (newRow example_env (Fin 1) example_payload))"
proof -
  let ?req = "PostDataEntry example_user example_payload"
  let ?rw = "serve example_env (\<lambda>_. None) (\<lambda>_. ''session'') ?req world_append_fails"
  let ?rv = "serve example_env (\<lambda>_. None) (\<lambda>_. ''session'') ?req world_read_fails"
  have nc: "new_calls world_append_fails (snd ?rw) =
              [(ValuesGet MAIN_DATA 1, True), (ValuesAppend MAIN_DATA, False)]"
    by code_simp
  from backend_failure_surfaces_except_reference_read
         [of example_env "\<lambda>_. None" "\<lambda>_. ''session''" ?req world_append_fails]
  have "\<forall>x \<in> set (new_calls world_append_fails (snd ?rw)).
          \<not> snd x \<and> \<not> is_ref_read (fst x) \<longrightarrow>
            x = last (new_calls world_append_fails (snd ?rw))
            \<and> status (fst ?rw) = (case ?req of PostAuthGoogle _ \<Rightarrow> 401 | _ \<Rightarrow> 500)"
    by blast
  with nc have st: "status (fst ?rw) = 500"
    by (simp add: is_ref_read_def)
  have f: "fails world_read_fails (length (trace world_read_fails))"
    "\<not> fails world_read_fails (Suc (length (trace world_read_fails)))"
    "\<not> fails world_read_fails (length (trace world_read_fails) + 3)"
    by code_simp+
  from backend_failure_surfaces_except_reference_read
         [of example_env "\<lambda>_. None" "\<lambda>_. ''session''" ?req world_read_fails]
  have "\<forall>u d. ?req = PostDataEntry u d \<and> fails world_read_fails (length (trace world_read_fails)) \<longrightarrow>
         take 2 (new_calls world_read_fails (snd ?rv)) =
           [(ValuesGet MAIN_DATA 1, False),
            (ValuesAppend MAIN_DATA, \<not> fails world_read_fails (Suc (length (trace world_read_fails))))]
         \<and> (\<not> fails world_read_fails (Suc (length (trace world_read_fails))) \<longrightarrow>
              main_data (snd ?rv) =
                main_data world_read_fails @ [map render (newRow example_env (Fin 1) d)])
         \<and> (\<not> fails world_read_fails (Suc (length (trace world_read_fails)))
              \<and> \<not> fails world_read_fails (length (trace world_read_fails) + 3) \<longrightarrow>
              fst ?rv =
                Response 201 (MessageDataBody ''Entry created successfully''
                                (newRow example_env (Fin 1) d)))"
    by blast
  with f have "fst ?rv = Response 201 (MessageDataBody ''Entry created successfully''
                                         (newRow example_env (Fin 1) example_payload))"
    by blast
  with nc st show ?thesis
    by simp
qed

text \<open>
  The claim as stated fails for the reference-column read. The records table holds one
  row and the read of its reference column fails: the create issues its three other calls
  all the same, answers 201 and stores a second record with id 1.
\<close>

theorem failed_reference_read_is_replaced_by_zero:
  "fails world_read_fails (length (trace world_read_fails))
   \<and> length (main_data world_read_fails) = 1
   \<and> new_calls world_read_fails
         (snd (post_data_entry example_env example_user example_payload world_read_fails)) =
       [(ValuesGet MAIN_DATA 1, False), (ValuesAppend MAIN_DATA, True),
        (ValuesGet LOG_ACTIVITY 1, True), (ValuesAppend LOG_ACTIVITY, True)]
   \<and> fst (post_data_entry example_env example_user example_payload world_read_fails) =
       Response 201 (MessageDataBody ''Entry created successfully''
                       (newRow example_env (Fin 1) example_payload))
   \<and> map (\<lambda>r. cell r 0)
         (main_data (snd (post_data_entry example_env example_user example_payload
                            world_read_fails))) = [Str ''1'', Str ''1'']"
  by code_simp

section \<open>Listing, soft delete and update\<close>

text \<open>The listing of any row: ten fields, none of them the status.\<close>

lemma record_of_row_fields:
  "map fst (record_of_row r) =
     [''id'', ''fullName'', ''populationId'', ''familyId'', ''gender'', ''dateOfBirth'',
      ''placeOfBirth'', ''religion'', ''bloodType'', ''lastUpdated'']"
  "get_prop (record_of_row r) ''status'' = Undefined"
  "get_prop (record_of_row r) ''lastUpdated'' = cell r 9"
  by (simp_all add: record_of_row_def get_prop_def)

text \<open>One object for each row of the sheet, in the order of the rows.\<close>

lemma get_data_rows:
  "\<not> fails w (length (trace w)) \<Longrightarrow>
   fst (get_data w) = Response 200 (DataBody (map (\<lambda>r. record_of_row (take 11 r)) (main_data w)))"
  by (simp add: get_data_def try_respond_def bind_io_def return_io_def values_get_eq comp_def)

text \<open>The write of a soft delete, on a row of eleven cells: the last cell changes.\<close>

lemma soft_delete_write:
  "i < length rows \<Longrightarrow> length (rows ! i) = 11 \<Longrightarrow>
   put_rows i 10 [[m]] rows = rows[i := (rows ! i)[10 := m]]"
  by (simp add: put_row_def overwrite_cells_def list_eq_iff_nth_eq nth_append nth_list_update)

lemma put_data_200:
  assumes "status (fst (put_data e u ident w)) = 200"
  shows "\<exists>rowIndex. findIndex (\<lambda>r. cell r 0 = Str ident) (map (take 11) (main_data w)) = Some rowIndex
           \<and> main_data (snd (put_data e u ident w)) =
               put_rows rowIndex 10 [[''tidak aktif'']] (main_data w)"
  using assms
  by (auto simp add: put_data_def try_respond_def bind_io_def return_io_def values_get_eq
      values_update_eq logActivity_eq Let_def render_def split: if_splits option.splits)

text \<open>
  Claim C4. \<^verbatim>\<open>GET /data\<close> after one create: the stored row has the status in its tenth
  cell and the time of the last change in its eleventh, as \<^verbatim>\<open>POST /data/entry\<close> wrote
  them, but the object that the listing returns has no \<^verbatim>\<open>status\<close> field, and its
  \<^verbatim>\<open>lastUpdated\<close> field holds the tenth cell, the status.
\<close>

theorem list_has_no_status:
  "main_data world_after_create =
     [[''1'', ''Budi S'', ''P1'', ''F1'', ''M'', ''2000-01-01'', ''Bandung'', ''Islam'', ''O'',
       ''active'', ''11/3/2026, 10:00:00 AM'']]
   \<and> fst (get_data world_after_create) =
     Response 200 (DataBody
       [[(''id'', Str ''1''), (''fullName'', Str ''Budi S''), (''populationId'', Str ''P1''),
         (''familyId'', Str ''F1''), (''gender'', Str ''M''), (''dateOfBirth'', Str ''2000-01-01''),
         (''placeOfBirth'', Str ''Bandung''), (''religion'', Str ''Islam''),
         (''bloodType'', Str ''O''), (''lastUpdated'', Str ''active'')]])"
  by code_simp

text \<open>
  Claim C2. \<^verbatim>\<open>PUT /data/1\<close> on the one record that a create has stored answers 200, but
  the cell it overwrites is the eleventh, the time of the last change, and the marker is
  \<^verbatim>\<open>"tidak aktif"\<close>; the status cell still reads \<^verbatim>\<open>"active"\<close>, and the listing
  afterwards is the listing before.
\<close>

theorem soft_delete_overwrites_timestamp_cell:
  "fst (put_data example_env example_user ''1'' world_after_create) =
     Response 200 (MessageBody ''Entry deleted successfully'')
   \<and> main_data world_after_delete =
     [[''1'', ''Budi S'', ''P1'', ''F1'', ''M'', ''2000-01-01'', ''Bandung'', ''Islam'', ''O'',
       ''active'', ''tidak aktif'']]
   \<and> fst (get_data world_after_delete) = fst (get_data world_after_create)"
  by code_simp

text \<open>
  Claim C3. \<^verbatim>\<open>PUT /dataupdate/1\<close> on the soft-deleted record answers 200 and rewrites the
  whole row, with \<^verbatim>\<open>"active"\<close> in the status cell and the current time in the last one;
  the listing afterwards still has no \<^verbatim>\<open>status\<close> field to show it.
\<close>

theorem update_then_list_has_no_status:
  "fst (put_dataupdate example_env example_user ''1'' example_payload world_after_delete) =
     Response 200 (MessageBody ''Entry updated successfully'')
   \<and> main_data world_after_update =
     [[''1'', ''Budi S'', ''P1'', ''F1'', ''M'', ''2000-01-01'', ''Bandung'', ''Islam'', ''O'',
       ''active'', ''11/3/2026, 10:00:00 AM'']]
   \<and> fst (get_data world_after_update) =
     Response 200 (DataBody
       [[(''id'', Str ''1''), (''fullName'', Str ''Budi S''), (''populationId'', Str ''P1''),
         (''familyId'', Str ''F1''), (''gender'', Str ''M''), (''dateOfBirth'', Str ''2000-01-01''),
         (''placeOfBirth'', Str ''Bandung''), (''religion'', Str ''Islam''),
         (''bloodType'', Str ''O''), (''lastUpdated'', Str ''active'')]])"
  by code_simp

section \<open>Login\<close>

text \<open>Whenever the email of the verified identity is in no row of the user table.\<close>

lemma login_unknown_email:
  assumes "v token = Some u" and "\<not> fails w (length (trace w))"
    and "\<forall>r \<in> set (user_list w). cell r 2 \<noteq> Str (email u)"
  shows "post_auth_google e v sg token w =
           (Response 401 (ErrorBody ''Authentication failed''),
            record_call (ValuesGet USER_LIST 7) True w)"
proof -
  have "findIndex (\<lambda>r. cell r 2 = Str (email u)) (map (take 7) (user_list w)) = None"
    using assms(3) by (simp add: findIndex_None cell_take_less)
  then show ?thesis
    using assms(1,2)
    by (simp add: post_auth_google_def try_respond_def bind_io_def return_io_def throw_io_def
        values_get_eq Let_def)
qed

text \<open>
  Claim C9. A login with a verified identity whose email is in no row of the user table:
  the branch for a new user throws before anything is written, so the request answers 401
  "Authentication failed", the user table has no new row, and the read of the user table
  is the only backend call.
\<close>

theorem login_with_unknown_email_fails:
  "fst (post_auth_google example_env (\<lambda>_. Some example_user) (\<lambda>_. ''session'') ''assertion''
          empty_world) = Response 401 (ErrorBody ''Authentication failed'')
   \<and> user_list (snd (post_auth_google example_env (\<lambda>_. Some example_user) (\<lambda>_. ''session'')
                       ''assertion'' empty_world)) = []
   \<and> trace (snd (post_auth_google example_env (\<lambda>_. Some example_user) (\<lambda>_. ''session'')
                   ''assertion'' empty_world)) = [(ValuesGet USER_LIST 7, True)]"
  by code_simp

section \<open>The session middleware\<close>

text \<open>
  The two ways in which the middleware answers "Token Expired": from the catch block when
  \<^verbatim>\<open>jwt.verify\<close> throws, and then the request ends there; and from its own comparison of
  \<^verbatim>\<open>decoded.exp\<close> with the clock, and then \<^verbatim>\<open>next()\<close> is called as well.
\<close>

lemma authenticate_rejected:
  assumes "bearer_token h = Some t" and "t \<noteq> []" and "jwt_verify t = None"
  shows "authenticate jwt_verify date_now h =
           \<lparr>sent = [Response 401 (ErrorBody ''Token Expired'')], next_user = None\<rparr>"
  using assms by (simp add: authenticate_def)

lemma authenticate_expired:
  assumes "bearer_token h = Some t" and "t \<noteq> []" and "jwt_verify t = Some d"
    and "exp d = Some x" and "x < date_now div 1000"
  shows "authenticate jwt_verify date_now h =
           \<lparr>sent = [Response 401 (ErrorBody ''Token Expired'')], next_user = Some d\<rparr>"
  using assms by (simp add: authenticate_def exp_before_def)

text \<open>
  Claim C7. A credential that \<^verbatim>\<open>jwt.verify\<close> accepts with expiry second 1000, checked by
  the middleware at second 1001: the middleware writes 401 "Token Expired" and still calls
  \<^verbatim>\<open>next()\<close>, so the protected \<^verbatim>\<open>POST /data/entry\<close> runs and appends its record.
\<close>

theorem expired_token_still_continues:
  "authenticate (\<lambda>_. Some example_claims) 1001000 (Some ''Bearer abc'') =
     \<lparr>sent = [Response 401 (ErrorBody ''Token Expired'')], next_user = Some example_claims\<rparr>
   \<and> fst (protected (\<lambda>_. Some example_claims) 1001000 (Some ''Bearer abc'')
            (\<lambda>u. post_data_entry example_env u example_payload) empty_world) =
     [Response 401 (ErrorBody ''Token Expired''),
      Response 201 (MessageDataBody ''Entry created successfully''
                      (newRow example_env (Fin 1) example_payload))]
   \<and> main_data (snd (protected (\<lambda>_. Some example_claims) 1001000 (Some ''Bearer abc'')
                       (\<lambda>u. post_data_entry example_env u example_payload) empty_world)) =
     [[''1'', ''Budi S'', ''P1'', ''F1'', ''M'', ''2000-01-01'', ''Bandung'', ''Islam'', ''O'',
       ''active'', ''11/3/2026, 10:00:00 AM'']]"
  by code_simp

end
